theory Spec2Isabelle
  imports Main "HOL-Library.Word"
begin

section \<open>The auto-type engine of KeeWeb (app/scripts/auto-type/index.js)\<close>

text \<open>
  The module is a singleton object \<^verbatim>\<open>AutoType\<close> whose methods are driven by events:
  Backbone notifications, timers, and the callbacks of its collaborators (parser and
  runner, native helper, entry filter, selection view).  JavaScript runs each handler to
  completion on one thread, so every handler is a function from the world before it to
  the world after it.  The world holds the fields of the object, the things the handlers
  leave behind for later (timers, callbacks awaited from collaborators, listeners), the
  part of the environment the handlers read, and the trace of what they did.
\<close>

subsection \<open>Strings\<close>

text \<open>A JavaScript string is a sequence of UTF-16 code units.\<close>

type_synonym jschar = "16 word"
type_synonym jsstring = "jschar list"

definition js :: "string \<Rightarrow> jsstring" where
  "js s = map (\<lambda>c. of_nat (of_char c)) s"

text \<open>\<^verbatim>\<open>Array.prototype.join\<close> on an array of strings.\<close>

fun join :: "jsstring \<Rightarrow> jsstring list \<Rightarrow> jsstring" where
  "join sep [] = []"
| "join sep [x] = x"
| "join sep (x # y # ys) = x @ sep @ join sep (y # ys)"

text \<open>
  The regular expression \<^verbatim>\<open>/./g\<close>: without the \<^verbatim>\<open>s\<close> flag the dot matches every code
  unit but the four line terminators LF, CR, U+2028 and U+2029.
\<close>

definition lineTerminator :: "jschar \<Rightarrow> bool" where
  "lineTerminator c = (c = 0x000A \<or> c = 0x000D \<or> c = 0x2028 \<or> c = 0x2029)"

definition star :: jschar where
  "star = 0x002A"

text \<open>\<^verbatim>\<open>value.replace(/./g, '*')\<close>: every match of the dot becomes a star, the rest stays.\<close>

definition replaceDotStar :: "jsstring \<Rightarrow> jsstring" where
  "replaceDotStar v = map (\<lambda>c. if lineTerminator c then c else star) v"

subsection \<open>Ops and their printing\<close>

text \<open>
  An op is an object with a \<^verbatim>\<open>type\<close>, a \<^verbatim>\<open>value\<close> and an optional \<^verbatim>\<open>mod\<close> (an object whose
  keys are the modifiers, in insertion order).  The constructor is the \<^verbatim>\<open>type\<close> tag:
  \<open>Group\<close> is \<^verbatim>\<open>'group'\<close> (the value is an array of ops), \<open>Text\<close> is \<^verbatim>\<open>'text'\<close> (the value is
  a string), and \<open>Command t v\<close> is any other type \<open>t\<close> with the value \<open>v\<close> as a string.
\<close>

datatype op =
    Group "jsstring list option" "op list"
  | Text "jsstring list option" jsstring
  | Command "jsstring list option" jsstring jsstring

text \<open>\<^verbatim>\<open>op.mod ? Object.keys(op.mod).join('') : ''\<close>\<close>

definition modKeys :: "jsstring list option \<Rightarrow> jsstring" where
  "modKeys m = (case m of None \<Rightarrow> [] | Some ks \<Rightarrow> join [] ks)"

text \<open>The first argument is the module variable \<^verbatim>\<open>clearTextAutoTypeLog\<close>, as a truth value.\<close>

fun printOp :: "bool \<Rightarrow> op \<Rightarrow> jsstring"
  and printOps :: "bool \<Rightarrow> op list \<Rightarrow> jsstring" where
  "printOps clear ops = js ''['' @ join (js '','') (map (printOp clear) ops) @ js '']''"
| "printOp clear (Group m v) = modKeys m @ printOps clear v"
| "printOp clear (Text m v) = modKeys m @ (if \<not> clear then replaceDotStar v else v)"
| "printOp clear (Command m t v) = modKeys m @ t @ js '':'' @ v"

subsection \<open>Data of the engine\<close>

datatype error = Error jsstring

record entry =
  entryId :: nat
  effectiveAutoTypeSeq :: jsstring
  autoTypeObfuscation :: bool

text \<open>The runner the parser returns; \<^verbatim>\<open>resolve\<close> and \<^verbatim>\<open>obfuscate\<close> rewrite its ops in place.\<close>

record runner =
  ops :: "op list"

text \<open>\<^verbatim>\<open>new AutoTypeFilter({title, url}, this.appModel)\<close>; either may be undefined.\<close>

record auto_type_filter =
  title :: "jsstring option"
  url :: "jsstring option"

text \<open>\<^verbatim>\<open>let evt = { filter }\<close>\<close>

record evt =
  evt_filter :: auto_type_filter

text \<open>The argument of \<^verbatim>\<open>handleEvent\<close>: undefined, or an object that may carry an entry.\<close>

record trig =
  trig_entry :: "entry option"

text \<open>
  \<^verbatim>\<open>selectEntryView\<close> starts as \<^verbatim>\<open>false\<close>, holds a view while one is open, and is \<^verbatim>\<open>null\<close>
  after a result.  Views live in a store and are referred to by their position in it.
\<close>

datatype sev = SevFalse | SevNull | SevView nat

definition truthy :: "sev \<Rightarrow> bool" where
  "truthy v = (case v of SevView _ \<Rightarrow> True | _ \<Rightarrow> False)"

record view =
  view_filter :: auto_type_filter
  resultListener :: bool
  removed :: bool

text \<open>
  A callback handed to \<^verbatim>\<open>run\<close> or \<^verbatim>\<open>validate\<close>: the arrow function of
  \<^verbatim>\<open>runAndHandleResult\<close>, or a function of a caller outside the module, known by a number.
\<close>

datatype callback = HandleResult | Callback nat

text \<open>The two entries of \<^verbatim>\<open>Timeouts\<close> the module reads; their values are configuration.\<close>

datatype timeout = AutoTypeAfterHide | RedrawInactiveWindow

text \<open>
  The arrow functions the module hands to \<^verbatim>\<open>hideWindow\<close> and \<^verbatim>\<open>setTimeout\<close>:
  \<^item> \<open>RunEntry e\<close> is \<^verbatim>\<open>() => { this.runAndHandleResult(e); }\<close>,
  \<^item> \<open>RunResult r\<close> is \<^verbatim>\<open>() => { if (result) { this.runAndHandleResult(result); } }\<close>,
  \<^item> \<open>ShowMain\<close> is \<^verbatim>\<open>() => Launcher.showMainWindow()\<close>.
\<close>

datatype cont = RunEntry entry | RunResult "entry option" | ShowMain

text \<open>Callbacks a collaborator has been given and has not called yet.\<close>

datatype awaited =
    AwaitWindowTitle
  | AwaitResolve runner entry "callback option"
  | AwaitRun runner "callback option"
  | AwaitValidate runner entry callback

datatype alert = ErrorGlobal | ErrorGeneric error

datatype log_arg =
    LStr jsstring
  | LOptStr "jsstring option"
  | LEntry "entry option"
  | LError error
  | LElapsed

text \<open>
  What a handler does to the outside.  \<open>Invoked cb err r\<close> is the call \<^verbatim>\<open>callback(err)\<close>;
  \<open>r\<close> is the value of \<^verbatim>\<open>AutoType.running\<close> at the moment of the call, which is what the
  callee finds when it looks.  \<open>Alert a skip\<close> is \<^verbatim>\<open>Alerts.error\<close> with the header
  \<^verbatim>\<open>Locale.autoTypeError\<close>, the body \<open>a\<close> and \<^verbatim>\<open>skipIfAlertDisplayed\<close>.
\<close>

datatype effect =
    LogDebug string "log_arg list"
  | LogError string "log_arg list"
  | Alert alert bool
  | HideApp
  | ShowMainWindow
  | RenderSelectView nat
  | RemoveView nat
  | Invoked callback "error option" bool

text \<open>
  What a method of the runner that takes a callback does before it returns: it leaves
  the callback for later, or calls it at once, or throws without having called it.
  \<open>ResolveNow err os\<close>: \<^verbatim>\<open>resolve\<close> calls the callback with \<open>err\<close>, having left the runner the ops
  \<open>os\<close>; \<open>RunNow err\<close>: \<^verbatim>\<open>runner.run\<close> calls it with \<open>err\<close>.  The runner does not catch what
  the callback throws.
\<close>

datatype resolve_sync = ResolveLater | ResolveNow "error option" "op list" | ResolveThrows error

datatype run_sync = RunLater | RunNow "error option" | RunThrows error

record world =
  enabled :: bool
  selectEntryView :: sev
  pendingEvent :: "evt option"
  running :: bool
  clearTextAutoTypeLog :: bool
  autoTypeSubs :: nat
  blurCloseSubs :: nat
  updateSubs :: nat
  appFocused :: bool
  hasOpenFiles :: bool
  getEntries :: "auto_type_filter \<Rightarrow> entry list"
  parse :: "jsstring \<Rightarrow> error + runner"
  resolveNow :: "runner \<Rightarrow> entry \<Rightarrow> resolve_sync"
  obfuscate :: "runner \<Rightarrow> error + runner"
  runNow :: "runner \<Rightarrow> run_sync"
  callbackThrows :: "nat \<Rightarrow> error option \<Rightarrow> error option"
  views :: "view list"
  timers :: "(cont \<times> timeout) list"
  awaiting :: "awaited list"
  trace :: "effect list"

text \<open>
  \<^item> \<open>enabled\<close>, \<open>selectEntryView\<close>, \<open>pendingEvent\<close>, \<open>running\<close>: the fields of \<^verbatim>\<open>AutoType\<close>;
  \<^item> \<open>clearTextAutoTypeLog\<close>: the module variable read from \<^verbatim>\<open>localStorage.autoTypeDebug\<close>;
  \<^item> \<open>autoTypeSubs\<close>, \<open>blurCloseSubs\<close>: how many times \<^verbatim>\<open>init\<close> has registered \<^verbatim>\<open>handleEvent\<close>
    and \<^verbatim>\<open>resetPendingEvent\<close> on Backbone; \<open>updateSubs\<close>: how many one-shot listeners
    \<^verbatim>\<open>processPendingEvent\<close> has on the 'update' event of \<^verbatim>\<open>appModel.files\<close>;
  \<^item> \<open>appFocused\<close> is \<^verbatim>\<open>Launcher.isAppFocused()\<close>, \<open>hasOpenFiles\<close> is
    \<^verbatim>\<open>appModel.files.hasOpenFiles()\<close>, \<open>getEntries f\<close> is \<^verbatim>\<open>f.getEntries()\<close>, \<open>parse s\<close> is
    \<^verbatim>\<open>new AutoTypeParser(s).parse()\<close> (\<open>Inl\<close> when it throws), \<open>obfuscate r\<close> is
    \<^verbatim>\<open>r.obfuscate()\<close> (\<open>Inl\<close> when it throws), \<open>resolveNow r e\<close> and \<open>runNow r\<close> are what
    \<^verbatim>\<open>r.resolve(e, ...)\<close> and \<^verbatim>\<open>r.run(...)\<close> do before they return, \<open>callbackThrows n err\<close> is
    the exception the caller's function \<open>n\<close> throws when it is called with \<open>err\<close>, if it
    throws: the collaborators and callers, which are not part of the module and may do
    anything (\<^verbatim>\<open>appModel\<close> is the application \<^verbatim>\<open>init\<close> was given);
  \<^item> \<open>views\<close>: the store of selection views; \<open>timers\<close>: the calls of \<^verbatim>\<open>setTimeout\<close> that have
    not fired; \<open>awaiting\<close>: the callbacks collaborators still owe; \<open>trace\<close>: the effects so
    far, oldest first.
\<close>

definition emit :: "effect \<Rightarrow> world \<Rightarrow> world" where
  "emit x w = w\<lparr>trace := trace w @ [x]\<rparr>"

definition setTimeout :: "cont \<Rightarrow> timeout \<Rightarrow> world \<Rightarrow> world" where
  "setTimeout k t w = w\<lparr>timers := timers w @ [(k, t)]\<rparr>"

definition await :: "awaited \<Rightarrow> world \<Rightarrow> world" where
  "await a w = w\<lparr>awaiting := awaiting w @ [a]\<rparr>"

definition updateView :: "nat \<Rightarrow> (view \<Rightarrow> view) \<Rightarrow> world \<Rightarrow> world" where
  "updateView i f w =
     (if i < length (views w) then w\<lparr>views := (views w)[i := f (views w ! i)]\<rparr> else w)"

subsection \<open>The pipeline: run and validate\<close>

text \<open>
  \<^verbatim>\<open>callback && callback(err)\<close>.  The arrow function of \<^verbatim>\<open>runAndHandleResult\<close> raises an
  alert when it is given an error; what a caller's function does is the caller's.
\<close>

definition callCallback :: "callback option \<Rightarrow> error option \<Rightarrow> world \<Rightarrow> world" where
  "callCallback callback err w =
     (case callback of
        None \<Rightarrow> w
      | Some cb \<Rightarrow>
          (let w1 = emit (Invoked cb err (running w)) w in
           case cb of
             Callback n \<Rightarrow> w1
           | HandleResult \<Rightarrow>
               (case err of
                  None \<Rightarrow> w1
                | Some e \<Rightarrow> emit (Alert (ErrorGeneric e) False) w1)))"

text \<open>
  An exception does not undo what was done before it was thrown.  The outcome of a piece
  of code is the exception that leaves it, if one does, and the world at that point.
\<close>

type_synonym outcome = "error option \<times> world"

text \<open>
  What the call \<^verbatim>\<open>callback(err)\<close> throws.  The arrow function of \<^verbatim>\<open>runAndHandleResult\<close>
  does not throw; a caller's function may.
\<close>

definition callbackThrown :: "callback option \<Rightarrow> error option \<Rightarrow> world \<Rightarrow> error option" where
  "callbackThrown callback err w =
     (case callback of
        None \<Rightarrow> None
      | Some cb \<Rightarrow> (case cb of HandleResult \<Rightarrow> None | Callback n \<Rightarrow> callbackThrows w n err))"

text \<open>\<^verbatim>\<open>return callback && callback(err)\<close> as the last statement of a function.\<close>

definition called :: "callback option \<Rightarrow> error option \<Rightarrow> world \<Rightarrow> outcome" where
  "called callback err w = (callbackThrown callback err w, callCallback callback err w)"

text \<open>The callback \<^verbatim>\<open>run\<close> gives to \<^verbatim>\<open>runner.run\<close>.\<close>

definition runCallbackOutcome :: "callback option \<Rightarrow> error option \<Rightarrow> world \<Rightarrow> outcome" where
  "runCallbackOutcome callback err w =
     (let w1 = w\<lparr>running := False\<rparr> in
      case err of
        Some e \<Rightarrow> called callback (Some e) (emit (LogError ''Run error'' [LError e]) w1)
      | None \<Rightarrow> called callback None (emit (LogDebug ''Complete'' [LElapsed]) w1))"

definition runCallback :: "callback option \<Rightarrow> error option \<Rightarrow> world \<Rightarrow> world" where
  "runCallback callback err w = snd (runCallbackOutcome callback err w)"

text \<open>The call \<^verbatim>\<open>runner.run(err => ...)\<close>; no \<^verbatim>\<open>try\<close> of the module is around it.\<close>

definition runnerRun :: "runner \<Rightarrow> callback option \<Rightarrow> world \<Rightarrow> outcome" where
  "runnerRun r callback w =
     (case runNow w r of
        RunLater \<Rightarrow> (None, await (AwaitRun r callback) w)
      | RunNow err \<Rightarrow> runCallbackOutcome callback err w
      | RunThrows ex \<Rightarrow> (Some ex, w))"

text \<open>The callback \<^verbatim>\<open>run\<close> gives to \<^verbatim>\<open>runner.resolve\<close>; \<open>r\<close> is the runner as resolve left it.\<close>

definition resolveCallbackOutcome ::
  "runner \<Rightarrow> entry \<Rightarrow> callback option \<Rightarrow> error option \<Rightarrow> world \<Rightarrow> outcome" where
  "resolveCallbackOutcome r ent callback err w =
     (case err of
        Some e \<Rightarrow>
          (let w1 = w\<lparr>running := False\<rparr>;
               w2 = emit (LogError ''Resolve error'' [LError e]) w1
           in called callback (Some e) w2)
      | None \<Rightarrow>
          (let w1 = emit (LogDebug ''Resolved''
                      [LStr (printOps (clearTextAutoTypeLog w) (ops r))]) w
           in if autoTypeObfuscation ent then
                (case obfuscate w1 r of
                   Inl e \<Rightarrow>
                     (let w2 = w1\<lparr>running := False\<rparr>;
                          w3 = emit (LogError ''Obfuscate error'' [LError e]) w2
                      in called callback (Some e) w3)
                 | Inr r' \<Rightarrow> runnerRun r' callback (emit (LogDebug ''Obfuscated'' []) w1))
              else runnerRun r callback w1))"

definition resolveCallback ::
  "runner \<Rightarrow> entry \<Rightarrow> callback option \<Rightarrow> error option \<Rightarrow> world \<Rightarrow> world" where
  "resolveCallback r ent callback err w = snd (resolveCallbackOutcome r ent callback err w)"

text \<open>
  \<^verbatim>\<open>run\<close>.  \<open>tried\<close> is the outcome of the \<^verbatim>\<open>try\<close> block: the parser, and the whole call of
  \<^verbatim>\<open>runner.resolve\<close>, with the callback and all it calls when resolve calls it at once.
  Whatever exception leaves the block goes to the \<^verbatim>\<open>catch\<close>, which lowers \<open>running\<close>, logs
  a parse error and calls the callback.
\<close>

definition runOutcome :: "entry \<Rightarrow> callback option \<Rightarrow> world \<Rightarrow> outcome" where
  "runOutcome ent callback w =
     (let w1 = w\<lparr>running := True\<rparr>;
          sequence = effectiveAutoTypeSeq ent;
          w2 = emit (LogDebug ''Start'' [LStr sequence]) w1;
          tried =
            (case parse w2 sequence of
               Inl ex \<Rightarrow> (Some ex, w2)
             | Inr r \<Rightarrow>
                 (let w3 = emit (LogDebug ''Parsed''
                             [LStr (printOps (clearTextAutoTypeLog w2) (ops r))]) w2
                  in case resolveNow w3 r ent of
                       ResolveLater \<Rightarrow> (None, await (AwaitResolve r ent callback) w3)
                     | ResolveNow err os \<Rightarrow>
                         resolveCallbackOutcome (r\<lparr>ops := os\<rparr>) ent callback err w3
                     | ResolveThrows ex \<Rightarrow> (Some ex, w3)))
      in case fst tried of
           None \<Rightarrow> (None, snd tried)
         | Some ex \<Rightarrow>
             (let w4 = (snd tried)\<lparr>running := False\<rparr>;
                  w5 = emit (LogError ''Parse error'' [LError ex]) w4
              in called callback (Some ex) w5))"

text \<open>The world when \<^verbatim>\<open>run\<close> is left, by return or by exception.\<close>

definition run :: "entry \<Rightarrow> callback option \<Rightarrow> world \<Rightarrow> world" where
  "run ent callback w = snd (runOutcome ent callback w)"

definition runAndHandleResult :: "entry \<Rightarrow> world \<Rightarrow> world" where
  "runAndHandleResult ent w = run ent (Some HandleResult) w"


subsection \<open>Windows, timers and the selection of an entry\<close>

definition applyCont :: "cont \<Rightarrow> world \<Rightarrow> world" where
  "applyCont k w =
     (case k of
        RunEntry e \<Rightarrow> runAndHandleResult e w
      | RunResult r \<Rightarrow> (case r of Some e \<Rightarrow> runAndHandleResult e w | None \<Rightarrow> w)
      | ShowMain \<Rightarrow> emit ShowMainWindow w)"

definition hideWindow :: "cont \<Rightarrow> world \<Rightarrow> world" where
  "hideWindow k w =
     (let w1 = emit (LogDebug ''Hide window'' []) w in
      if appFocused w1 then setTimeout k AutoTypeAfterHide (emit HideApp w1)
      else applyCont k w1)"

definition focusMainWindow :: "world \<Rightarrow> world" where
  "focusMainWindow w = setTimeout ShowMain RedrawInactiveWindow w"

definition processEventWithFilter :: "evt \<Rightarrow> world \<Rightarrow> world" where
  "processEventWithFilter ev w =
     (let entries = getEntries w (evt_filter ev) in
      if length entries = 1 then hideWindow (RunEntry (entries ! 0)) w
      else
        (let w1 = focusMainWindow w;
             v = length (views w1);
             w2 = emit (RenderSelectView v)
                    (w1\<lparr>views := views w1 @
                       [\<lparr>view_filter = evt_filter ev, resultListener = False, removed = False\<rparr>]\<rparr>);
             w3 = w2\<lparr>selectEntryView := SevView v\<rparr>
         in updateView v (\<lambda>x. x\<lparr>resultListener := True\<rparr>) w3))"

text \<open>
  The listener of 'result'.  It works on \<^verbatim>\<open>this.selectEntryView\<close>, whatever that is when
  the event fires; on \<^verbatim>\<open>null\<close> or \<^verbatim>\<open>false\<close> the call of \<^verbatim>\<open>off\<close> is a TypeError.
\<close>

datatype js_error = TypeError

definition resultListenerBody :: "entry option \<Rightarrow> world \<Rightarrow> js_error + world" where
  "resultListenerBody result w =
     (let w1 = emit (LogDebug ''Entry selected'' [LEntry result]) w in
      case selectEntryView w1 of
        SevView v \<Rightarrow>
          (let w2 = updateView v (\<lambda>x. x\<lparr>resultListener := False\<rparr>) w1;
               w3 = emit (RemoveView v) (updateView v (\<lambda>x. x\<lparr>removed := True\<rparr>) w2);
               w4 = w3\<lparr>selectEntryView := SevNull\<rparr>
           in Inr (hideWindow (RunResult result) w4))
      | _ \<Rightarrow> Inl TypeError)"

text \<open>The view at \<open>v\<close> triggers 'result': its listener runs, if it has one.\<close>

definition viewResult :: "nat \<Rightarrow> entry option \<Rightarrow> world \<Rightarrow> js_error + world" where
  "viewResult v result w =
     (if v < length (views w) \<and> resultListener (views w ! v) then resultListenerBody result w
      else Inr w)"

definition resetPendingEvent :: "world \<Rightarrow> world" where
  "resetPendingEvent w =
     (if pendingEvent w \<noteq> None then
        emit (LogDebug ''auto-type event cancelled'' [])
          (w\<lparr>pendingEvent := None, updateSubs := 0\<rparr>)
      else w)"

definition processPendingEvent :: "world \<Rightarrow> world" where
  "processPendingEvent w =
     (case pendingEvent w of
        None \<Rightarrow> w
      | Some ev \<Rightarrow>
          (let w1 = emit (LogDebug ''processing pending auto-type event'' []) w;
               w2 = w1\<lparr>updateSubs := 0\<rparr>;
               w3 = w2\<lparr>pendingEvent := None\<rparr>
           in processEventWithFilter ev w3))"

text \<open>\<^verbatim>\<open>getActiveWindowTitle\<close> as \<^verbatim>\<open>selectEntryAndRun\<close> calls it: the helper is asked.\<close>

definition selectEntryAndRun :: "world \<Rightarrow> world" where
  "selectEntryAndRun w = await AwaitWindowTitle (emit (LogDebug ''Get window title'' []) w)"

text \<open>
  The helper answers: first the arrow function of \<^verbatim>\<open>getActiveWindowTitle\<close>, which logs,
  then the one of \<^verbatim>\<open>selectEntryAndRun\<close>.
\<close>

definition windowTitleCallback ::
  "error option \<Rightarrow> jsstring option \<Rightarrow> jsstring option \<Rightarrow> world \<Rightarrow> world" where
  "windowTitleCallback err t u w =
     (let w1 = (case err of
                  Some e \<Rightarrow> emit (LogError ''Error get window title'' [LError e]) w
                | None \<Rightarrow> emit (LogDebug ''Window title'' [LOptStr t, LOptStr u]) w);
          ev = \<lparr>evt_filter = \<lparr>title = t, url = u\<rparr>\<rparr>
      in if \<not> hasOpenFiles w1 then
           (let w2 = w1\<lparr>pendingEvent := Some ev\<rparr>;
                w3 = w2\<lparr>updateSubs := updateSubs w2 + 1\<rparr>;
                w4 = emit (LogDebug ''auto-type event delayed'' []) w3
            in focusMainWindow w4)
         else processEventWithFilter ev w1)"

definition handleEvent :: "trig option \<Rightarrow> world \<Rightarrow> world" where
  "handleEvent e w =
     (let ent = (case e of None \<Rightarrow> None | Some t \<Rightarrow> trig_entry t);
          w1 = emit (LogDebug ''Auto type event'' [LEntry ent]) w
      in if running w1 then emit (LogDebug ''Already running, skipping event'' []) w1
         else
           (case ent of
              Some en \<Rightarrow> hideWindow (RunEntry en) w1
            | None \<Rightarrow>
                if truthy (selectEntryView w1) then w1
                else if appFocused w1 then emit (Alert ErrorGlobal True) w1
                else selectEntryAndRun w1))"

definition init :: "world \<Rightarrow> world" where
  "init w =
     (if \<not> enabled w then w
      else w\<lparr>autoTypeSubs := autoTypeSubs w + 1, blurCloseSubs := blurCloseSubs w + 1\<rparr>)"

subsection \<open>What the outside does\<close>

text \<open>
  Backbone calls every listener of an event, in turn.  A listener registered with
  \<^verbatim>\<open>once\<close> is taken off before it is called; \<^verbatim>\<open>off\<close> with the callback takes all of them
  off, and one already taken off is still called if the event was under way.
\<close>

datatype notification = AutoTypeEvent "trig option" | MainWindowBlur | MainWindowWillClose

definition backboneTrigger :: "notification \<Rightarrow> world \<Rightarrow> world" where
  "backboneTrigger n w =
     (case n of
        AutoTypeEvent e \<Rightarrow> (handleEvent e ^^ autoTypeSubs w) w
      | MainWindowBlur \<Rightarrow> (resetPendingEvent ^^ blurCloseSubs w) w
      | MainWindowWillClose \<Rightarrow> (resetPendingEvent ^^ blurCloseSubs w) w)"

definition filesUpdate :: "world \<Rightarrow> world" where
  "filesUpdate w =
     ((\<lambda>x. processPendingEvent (x\<lparr>updateSubs := updateSubs x - 1\<rparr>)) ^^ updateSubs w) w"

text \<open>The timer at position \<open>i\<close> fires: it is gone, and its function runs.\<close>

definition fireTimer :: "nat \<Rightarrow> world \<Rightarrow> world" where
  "fireTimer i w =
     (if i < length (timers w) then
        applyCont (fst (timers w ! i))
          (w\<lparr>timers := take i (timers w) @ drop (Suc i) (timers w)\<rparr>)
      else w)"

text \<open>
  A collaborator calls back.  \<open>Resolved err os\<close>: \<^verbatim>\<open>resolve\<close> is done, with the error or
  none, and has left the runner the ops \<open>os\<close>.
\<close>

datatype answer =
    WindowTitle "error option" "jsstring option" "jsstring option"
  | Resolved "error option" "op list"
  | Ran "error option"

definition answerTo :: "awaited \<Rightarrow> answer \<Rightarrow> world \<Rightarrow> world option" where
  "answerTo a x w =
     (case a of
        AwaitWindowTitle \<Rightarrow>
          (case x of WindowTitle err t u \<Rightarrow> Some (windowTitleCallback err t u w) | _ \<Rightarrow> None)
      | AwaitResolve r ent cb \<Rightarrow>
          (case x of
             Resolved err os \<Rightarrow> Some (resolveCallback (r\<lparr>ops := os\<rparr>) ent cb err w)
           | _ \<Rightarrow> None)
      | AwaitRun r cb \<Rightarrow>
          (case x of Ran err \<Rightarrow> Some (runCallback cb err w) | _ \<Rightarrow> None)
      | AwaitValidate r ent cb \<Rightarrow>
          (case x of Resolved err os \<Rightarrow> Some (callCallback (Some cb) err w) | _ \<Rightarrow> None))"

text \<open>
  The callback at position \<open>i\<close> is called with the answer \<open>x\<close>.  Nothing happens when no
  callback is owed there or the answer is not one for it.
\<close>

definition complete :: "nat \<Rightarrow> answer \<Rightarrow> world \<Rightarrow> world" where
  "complete i x w =
     (if i < length (awaiting w) then
        (case answerTo (awaiting w ! i) x
                (w\<lparr>awaiting := take i (awaiting w) @ drop (Suc i) (awaiting w)\<rparr>) of
           Some w' \<Rightarrow> w'
         | None \<Rightarrow> w)
      else w)"

subsection \<open>Observations\<close>

text \<open>The pipelines in flight: runs of \<^verbatim>\<open>run\<close> that wait for \<^verbatim>\<open>resolve\<close> or \<^verbatim>\<open>runner.run\<close>.\<close>

definition isPipeline :: "awaited \<Rightarrow> bool" where
  "isPipeline a = (case a of AwaitResolve _ _ _ \<Rightarrow> True | AwaitRun _ _ \<Rightarrow> True | _ \<Rightarrow> False)"

definition inFlight :: "world \<Rightarrow> nat" where
  "inFlight w = length (filter isPipeline (awaiting w))"

definition isInvoked :: "effect \<Rightarrow> bool" where
  "isInvoked x = (case x of Invoked _ _ _ \<Rightarrow> True | _ \<Rightarrow> False)"

text \<open>The calls of callbacks so far.\<close>

definition invocations :: "world \<Rightarrow> effect list" where
  "invocations w = filter isInvoked (trace w)"

definition engineState :: "world \<Rightarrow> evt option \<times> sev \<times> bool" where
  "engineState w = (pendingEvent w, selectEntryView w, running w)"

text \<open>
  The world after the listener of 'result' has dealt with the view at \<open>v\<close>: the listener
  taken off, the view removed, \<open>selectEntryView\<close> null.
\<close>

definition tornDown :: "nat \<Rightarrow> entry option \<Rightarrow> world \<Rightarrow> world" where
  "tornDown v res w =
     w\<lparr>views := (views w)[v := (views w ! v)\<lparr>resultListener := False, removed := True\<rparr>],
       trace := trace w @ [LogDebug ''Entry selected'' [LEntry res], RemoveView v],
       selectEntryView := SevNull\<rparr>"

text \<open>The questions to the helper that have no answer yet.\<close>

definition isWindowQuery :: "awaited \<Rightarrow> bool" where
  "isWindowQuery a = (case a of AwaitWindowTitle \<Rightarrow> True | _ \<Rightarrow> False)"

definition windowQueries :: "world \<Rightarrow> nat" where
  "windowQueries w = length (filter isWindowQuery (awaiting w))"

subsection \<open>Entries and an idle world, for the examples\<close>

definition entryA :: entry where
  "entryA = \<lparr>entryId = 1, effectiveAutoTypeSeq = js ''ab'', autoTypeObfuscation = False\<rparr>"

definition entryB :: entry where
  "entryB = \<lparr>entryId = 2, effectiveAutoTypeSeq = js ''cd'', autoTypeObfuscation = True\<rparr>"

definition entryE :: entry where
  "entryE = \<lparr>entryId = 3, effectiveAutoTypeSeq = [], autoTypeObfuscation = False\<rparr>"

text \<open>
  Nothing is going on, another application has the focus, a file is open.  The parser
  of the example rejects the empty sequence and reads any other as one text; the runner
  answers later; no callback throws.
\<close>

definition idle :: world where
  "idle = \<lparr>enabled = True, selectEntryView = SevFalse, pendingEvent = None, running = False,
     clearTextAutoTypeLog = False, autoTypeSubs = 0, blurCloseSubs = 0, updateSubs = 0,
     appFocused = False, hasOpenFiles = True, getEntries = (\<lambda>f. []),
     parse = (\<lambda>s. if s = [] then Inl (Error (js ''empty'')) else Inr \<lparr>ops = [Text None s]\<rparr>),
     resolveNow = (\<lambda>r e. ResolveLater), obfuscate = (\<lambda>r. Inr r), runNow = (\<lambda>r. RunLater),
     callbackThrows = (\<lambda>n err. None), views = [], timers = [], awaiting = [], trace = []\<rparr>"

text \<open>An event whose filter knows neither title nor URL.\<close>

definition noContext :: evt where
  "noContext = \<lparr>evt_filter = \<lparr>title = None, url = None\<rparr>\<rparr>"

text \<open>The idle world with a filter that finds one entry, and with one that finds two.\<close>

definition oneCandidate :: world where
  "oneCandidate = idle\<lparr>getEntries := \<lambda>f. [entryA]\<rparr>"

definition twoCandidates :: world where
  "twoCandidates = idle\<lparr>getEntries := \<lambda>f. [entryA, entryB]\<rparr>"

text \<open>
  A trigger without entry was handled while no file was open, in front of a window
  titled "bank"; since then a file has been opened, in which \<open>entryA\<close> is the one entry
  for that title.
\<close>

definition bankEntries :: "auto_type_filter \<Rightarrow> entry list" where
  "bankEntries f = (if title f = Some (js ''bank'') then [entryA] else [])"

definition deferred :: world where
  "deferred =
     (windowTitleCallback None (Some (js ''bank'')) None (idle\<lparr>hasOpenFiles := False\<rparr>))
       \<lparr>hasOpenFiles := True, getEntries := bankEntries\<rparr>"

text \<open>
  Resolve finds a field missing and says so at once, and the caller's function throws
  when it is told.
\<close>

definition throwingCaller :: world where
  "throwingCaller =
     idle\<lparr>resolveNow := \<lambda>r e. ResolveNow (Some (Error (js ''no field''))) (ops r),
          callbackThrows :=
            \<lambda>n err. if err = Some (Error (js ''no field'')) then Some (Error (js ''boom''))
                     else None\<rparr>"

text \<open>
  Two triggers without entry arrive before the helper has answered the first; then the
  helper answers both.  The filter finds two entries each time.
\<close>

definition twoViews :: world where
  "twoViews =
     complete 0 (WindowTitle None None None)
       (complete 0 (WindowTitle None None None)
         (handleEvent None (handleEvent None twoCandidates)))"

text \<open>A selection view as \<open>processEventWithFilter\<close> leaves it: rendered, listened to.\<close>

definition openView :: view where
  "openView = \<lparr>view_filter = \<lparr>title = None, url = None\<rparr>, resultListener = True,
     removed = False\<rparr>"

section \<open>What each handler leaves alone\<close>

lemma callCallback_frame:
  "running (callCallback cb err w) = running w"
  "pendingEvent (callCallback cb err w) = pendingEvent w"
  "selectEntryView (callCallback cb err w) = selectEntryView w"
  "updateSubs (callCallback cb err w) = updateSubs w"
  "views (callCallback cb err w) = views w"
  "timers (callCallback cb err w) = timers w"
  "awaiting (callCallback cb err w) = awaiting w"
  by (simp_all add: callCallback_def emit_def Let_def split: option.splits callback.splits)

lemma invocations_emit:
  "invocations (emit x w) = invocations w @ (if isInvoked x then [x] else [])"
  by (simp add: invocations_def emit_def)


lemma invocations_update:
  "invocations (w\<lparr>running := r\<rparr>) = invocations w"
  "invocations (await a w) = invocations w"
  by (simp_all add: invocations_def await_def)

lemmas run_defs =
  run_def runOutcome_def resolveCallback_def resolveCallbackOutcome_def runnerRun_def
  runCallback_def runCallbackOutcome_def called_def callbackThrown_def

lemma runCallbackOutcome_frame:
  "pendingEvent (snd (runCallbackOutcome cb err w)) = pendingEvent w"
  "selectEntryView (snd (runCallbackOutcome cb err w)) = selectEntryView w"
  "updateSubs (snd (runCallbackOutcome cb err w)) = updateSubs w"
  "views (snd (runCallbackOutcome cb err w)) = views w"
  "timers (snd (runCallbackOutcome cb err w)) = timers w"
  by (simp_all add: runCallbackOutcome_def called_def callCallback_frame emit_def Let_def
      split: option.splits)

lemma runnerRun_frame:
  "pendingEvent (snd (runnerRun r cb w)) = pendingEvent w"
  "selectEntryView (snd (runnerRun r cb w)) = selectEntryView w"
  "updateSubs (snd (runnerRun r cb w)) = updateSubs w"
  "views (snd (runnerRun r cb w)) = views w"
  "timers (snd (runnerRun r cb w)) = timers w"
  by (simp_all add: runnerRun_def runCallbackOutcome_frame await_def split: run_sync.splits)

lemma resolveCallbackOutcome_frame:
  "pendingEvent (snd (resolveCallbackOutcome r ent cb err w)) = pendingEvent w"
  "selectEntryView (snd (resolveCallbackOutcome r ent cb err w)) = selectEntryView w"
  "updateSubs (snd (resolveCallbackOutcome r ent cb err w)) = updateSubs w"
  "views (snd (resolveCallbackOutcome r ent cb err w)) = views w"
  "timers (snd (resolveCallbackOutcome r ent cb err w)) = timers w"
  by (simp_all add: resolveCallbackOutcome_def called_def callCallback_frame runnerRun_frame
      emit_def Let_def split: option.splits sum.splits)

lemma run_frame:
  "pendingEvent (run ent cb w) = pendingEvent w"
  "selectEntryView (run ent cb w) = selectEntryView w"
  "updateSubs (run ent cb w) = updateSubs w"
  "views (run ent cb w) = views w"
  "timers (run ent cb w) = timers w"
  by (simp_all add: run_def runOutcome_def called_def callCallback_frame
      resolveCallbackOutcome_frame emit_def await_def Let_def
      split: option.splits sum.splits resolve_sync.splits)

lemma applyCont_frame:
  "pendingEvent (applyCont k w) = pendingEvent w"
  "selectEntryView (applyCont k w) = selectEntryView w"
  "updateSubs (applyCont k w) = updateSubs w"
  "views (applyCont k w) = views w"
  by (simp_all add: applyCont_def runAndHandleResult_def run_frame emit_def
      split: cont.splits option.splits)

lemma hideWindow_frame:
  "pendingEvent (hideWindow k w) = pendingEvent w"
  "selectEntryView (hideWindow k w) = selectEntryView w"
  "updateSubs (hideWindow k w) = updateSubs w"
  "views (hideWindow k w) = views w"
  by (simp_all add: hideWindow_def applyCont_frame emit_def setTimeout_def Let_def)

lemma processEventWithFilter_frame:
  "pendingEvent (processEventWithFilter ev w) = pendingEvent w"
  "updateSubs (processEventWithFilter ev w) = updateSubs w"
  by (simp_all add: processEventWithFilter_def hideWindow_frame focusMainWindow_def
      setTimeout_def emit_def updateView_def Let_def)

section \<open>Triggers while a run is under way\<close>

text \<open>
  The guard: a trigger that reaches \<open>handleEvent\<close> while \<open>running\<close> is true
  does nothing but write two lines to the log.  No run is started for it, nothing is
  kept for later (no timer, no awaited callback, no listener, no view), and
  \<open>pendingEvent\<close>, \<open>selectEntryView\<close> and \<open>running\<close> are as they were.
\<close>

theorem handleEvent_running_skips:
  "running w \<Longrightarrow>
     handleEvent e w =
       w\<lparr>trace := trace w @
          [LogDebug ''Auto type event''
             [LEntry (case e of None \<Rightarrow> None | Some t \<Rightarrow> trig_entry t)],
           LogDebug ''Already running, skipping event'' []]\<rparr>
     \<and> engineState (handleEvent e w) = engineState w
     \<and> awaiting (handleEvent e w) = awaiting w
     \<and> timers (handleEvent e w) = timers w
     \<and> updateSubs (handleEvent e w) = updateSubs w
     \<and> views (handleEvent e w) = views w
     \<and> inFlight (handleEvent e w) = inFlight w"
  by (simp add: handleEvent_def emit_def engineState_def inFlight_def Let_def)

theorem handleEvent_running_skips_witness:
  "running (idle\<lparr>running := True\<rparr>) \<and>
   handleEvent (Some \<lparr>trig_entry = Some entryA\<rparr>) (idle\<lparr>running := True\<rparr>) =
     idle\<lparr>running := True, trace :=
        [LogDebug ''Auto type event'' [LEntry (Some entryA)],
         LogDebug ''Already running, skipping event'' []]\<rparr>"
  using handleEvent_running_skips
    [of "idle\<lparr>running := True\<rparr>" "Some \<lparr>trig_entry = Some entryA\<rparr>"]
  by (simp add: idle_def)

text \<open>
  C1.  The guard is there so that at most one pipeline is in flight, and a trigger that
  finds \<open>running\<close> true is dropped as C1 says.  But the flag is raised by \<open>run\<close>, not when
  the trigger is accepted, and \<open>hideWindow\<close> puts \<open>run\<close> off by a timer when the
  application has the focus; a trigger that arrives before the timer fires is not
  dropped.  Here the trigger for \<open>entryA\<close> arrives while the application is focused: the
  application is hidden and a timer set.  The trigger for \<open>entryB\<close> arrives before the
  timer fires; \<open>running\<close> is still false, so it is accepted too.  Whether the
  application has lost the focus by then (first scenario: the run for \<open>entryB\<close> starts
  at once) or not (second scenario: a second timer), once the timers have fired two
  runs wait for their resolve callbacks.
\<close>

theorem two_pipelines_in_flight:
  "\<not> running (idle\<lparr>appFocused := True\<rparr>)
   \<and> \<not> running (handleEvent (Some \<lparr>trig_entry = Some entryA\<rparr>) (idle\<lparr>appFocused := True\<rparr>))
   \<and> inFlight
        (fireTimer 0
          (handleEvent (Some \<lparr>trig_entry = Some entryB\<rparr>)
            ((handleEvent (Some \<lparr>trig_entry = Some entryA\<rparr>) (idle\<lparr>appFocused := True\<rparr>))
               \<lparr>appFocused := False\<rparr>))) = 2
   \<and> inFlight
        (fireTimer 0 (fireTimer 0
          (handleEvent (Some \<lparr>trig_entry = Some entryB\<rparr>)
            (handleEvent (Some \<lparr>trig_entry = Some entryA\<rparr>) (idle\<lparr>appFocused := True\<rparr>))))) = 2"
  by (simp add: handleEvent_def hideWindow_def applyCont_def runAndHandleResult_def run_defs
      emit_def setTimeout_def await_def fireTimer_def inFlight_def isPipeline_def
      entryA_def entryB_def idle_def js_def Let_def)

section \<open>The pipeline of one run\<close>

text \<open>
  The stages when the runner answers later.  \<open>run\<close> raises \<open>running\<close>; every end of the
  pipeline lowers the flag and then calls the callback with that stage's error or with
  none: the call is recorded with \<open>running\<close> false and is the one call added.  The
  stages in between call nothing.
\<close>

lemma pipeline_stages:
  "(parse w (effectiveAutoTypeSeq ent) = Inl ex \<longrightarrow>
      \<not> running (run ent (Some cb) w)
      \<and> invocations (run ent (Some cb) w) = invocations w @ [Invoked cb (Some ex) False]
      \<and> awaiting (run ent (Some cb) w) = awaiting w)
   \<and> (parse w (effectiveAutoTypeSeq ent) = Inr r \<and> resolveNow w r ent = ResolveLater \<longrightarrow>
      running (run ent (Some cb) w)
      \<and> invocations (run ent (Some cb) w) = invocations w
      \<and> awaiting (run ent (Some cb) w) = awaiting w @ [AwaitResolve r ent (Some cb)])
   \<and> (\<not> running (resolveCallback r ent (Some cb) (Some e) w)
      \<and> invocations (resolveCallback r ent (Some cb) (Some e) w)
          = invocations w @ [Invoked cb (Some e) False]
      \<and> awaiting (resolveCallback r ent (Some cb) (Some e) w) = awaiting w)
   \<and> (autoTypeObfuscation ent \<and> obfuscate w r = Inl e \<longrightarrow>
      \<not> running (resolveCallback r ent (Some cb) None w)
      \<and> invocations (resolveCallback r ent (Some cb) None w)
          = invocations w @ [Invoked cb (Some e) False]
      \<and> awaiting (resolveCallback r ent (Some cb) None w) = awaiting w)
   \<and> (autoTypeObfuscation ent \<and> obfuscate w r = Inr r' \<and> runNow w r' = RunLater \<longrightarrow>
      running (resolveCallback r ent (Some cb) None w) = running w
      \<and> invocations (resolveCallback r ent (Some cb) None w) = invocations w
      \<and> awaiting (resolveCallback r ent (Some cb) None w) = awaiting w @ [AwaitRun r' (Some cb)])
   \<and> (\<not> autoTypeObfuscation ent \<and> runNow w r = RunLater \<longrightarrow>
      running (resolveCallback r ent (Some cb) None w) = running w
      \<and> invocations (resolveCallback r ent (Some cb) None w) = invocations w
      \<and> awaiting (resolveCallback r ent (Some cb) None w) = awaiting w @ [AwaitRun r (Some cb)])
   \<and> (\<not> running (runCallback (Some cb) (Some e) w)
      \<and> invocations (runCallback (Some cb) (Some e) w)
          = invocations w @ [Invoked cb (Some e) False]
      \<and> awaiting (runCallback (Some cb) (Some e) w) = awaiting w)
   \<and> (\<not> running (runCallback (Some cb) None w)
      \<and> invocations (runCallback (Some cb) None w) = invocations w @ [Invoked cb None False]
      \<and> awaiting (runCallback (Some cb) None w) = awaiting w)"
  by (simp add: run_defs callCallback_def invocations_def isInvoked_def emit_def await_def
      Let_def split: callback.splits)

text \<open>The run of \<open>entryA\<close> from start to finish when nothing fails and nothing throws.\<close>

lemma pipeline_of_entryA:
  "invocations
     (complete 0 (Ran None)
       (complete 0 (Resolved None [Text None (js ''ab'')])
         (run entryA (Some (Callback 7)) idle)))
     = [Invoked (Callback 7) None False]
   \<and> \<not> running
        (complete 0 (Ran None)
          (complete 0 (Resolved None [Text None (js ''ab'')])
            (run entryA (Some (Callback 7)) idle)))
   \<and> awaiting
        (complete 0 (Ran None)
          (complete 0 (Resolved None [Text None (js ''ab'')])
            (run entryA (Some (Callback 7)) idle))) = []"
  by (simp add: idle_def entryA_def invocations_def isInvoked_def complete_def answerTo_def
      run_defs callCallback_def emit_def await_def js_def Let_def)

text \<open>
  C2.  The callback is to be called once for a run.  It is called twice when resolve
  calls back at once and the callback throws: the call of \<^verbatim>\<open>runner.resolve\<close> stands inside
  the \<^verbatim>\<open>try\<close> of \<open>run\<close>, so the exception of the callback reaches the \<^verbatim>\<open>catch\<close> that is meant
  for the parser, and the \<^verbatim>\<open>catch\<close> calls the callback again, with that exception.  Here
  the sequence of \<open>entryA\<close> parses, resolve reports a missing field at once, and the
  caller's function throws when it is told: it is called with the resolve error and then
  with its own exception, and the log shows a resolve error and a parse error.
\<close>

theorem callback_called_twice:
  "parse throwingCaller (effectiveAutoTypeSeq entryA) = Inr \<lparr>ops = [Text None (js ''ab'')]\<rparr>
   \<and> resolveNow throwingCaller \<lparr>ops = [Text None (js ''ab'')]\<rparr> entryA
       = ResolveNow (Some (Error (js ''no field''))) [Text None (js ''ab'')]
   \<and> callbackThrows throwingCaller 7 (Some (Error (js ''no field''))) = Some (Error (js ''boom''))
   \<and> invocations (run entryA (Some (Callback 7)) throwingCaller)
       = [Invoked (Callback 7) (Some (Error (js ''no field''))) False,
          Invoked (Callback 7) (Some (Error (js ''boom''))) False]
   \<and> trace (run entryA (Some (Callback 7)) throwingCaller)
       = [LogDebug ''Start'' [LStr (js ''ab'')],
          LogDebug ''Parsed'' [LStr (js ''[**]'')],
          LogError ''Resolve error'' [LError (Error (js ''no field''))],
          Invoked (Callback 7) (Some (Error (js ''no field''))) False,
          LogError ''Parse error'' [LError (Error (js ''boom''))],
          Invoked (Callback 7) (Some (Error (js ''boom''))) False]"
  by (simp add: throwingCaller_def idle_def entryA_def invocations_def isInvoked_def run_defs
      callCallback_def emit_def await_def replaceDotStar_def lineTerminator_def star_def
      modKeys_def js_def Let_def)

text \<open>
  No \<^verbatim>\<open>try\<close> is around \<^verbatim>\<open>runner.run\<close>: when it throws in a resolve callback that was called
  later, the exception leaves the callback, \<open>running\<close> stays true and nothing is called.
\<close>

lemma runner_run_throws_outside_try:
  "running
     (resolveCallback \<lparr>ops = []\<rparr> entryA (Some (Callback 7)) None
       (idle\<lparr>running := True, runNow := \<lambda>r. RunThrows (Error (js ''rejected''))\<rparr>))
   \<and> invocations
       (resolveCallback \<lparr>ops = []\<rparr> entryA (Some (Callback 7)) None
         (idle\<lparr>running := True, runNow := \<lambda>r. RunThrows (Error (js ''rejected''))\<rparr>)) = []
   \<and> fst (resolveCallbackOutcome \<lparr>ops = []\<rparr> entryA (Some (Callback 7)) None
         (idle\<lparr>running := True, runNow := \<lambda>r. RunThrows (Error (js ''rejected''))\<rparr>))
       = Some (Error (js ''rejected''))"
  by (simp add: idle_def entryA_def invocations_def isInvoked_def run_defs callCallback_def
      emit_def await_def modKeys_def js_def Let_def)

section \<open>Hiding the window\<close>

lemma applyCont_timers: "timers (applyCont k w) = timers w"
  by (simp add: applyCont_def runAndHandleResult_def run_frame emit_def
      split: cont.splits option.splits)

text \<open>
  C7.  When the application has the focus, \<open>hideWindow k\<close> asks the launcher to hide it
  and sets one timer for \<open>k\<close> with the delay \<open>AutoTypeAfterHide\<close>; \<open>k\<close> has not run when
  \<open>hideWindow\<close> returns, it runs when that timer fires, and the timer is gone then.  When
  the application does not have the focus, \<open>k\<close> runs at once: nothing is hidden and no
  timer is set.  Either way \<open>k\<close> runs once.
\<close>

theorem hideWindow_continuation_once:
  "(appFocused w \<longrightarrow>
      hideWindow k w =
        w\<lparr>timers := timers w @ [(k, AutoTypeAfterHide)],
          trace := trace w @ [LogDebug ''Hide window'' [], HideApp]\<rparr>
      \<and> fireTimer (length (timers w)) (hideWindow k w) =
          applyCont k (w\<lparr>trace := trace w @ [LogDebug ''Hide window'' [], HideApp]\<rparr>)
      \<and> timers (fireTimer (length (timers w)) (hideWindow k w)) = timers w)
   \<and> (\<not> appFocused w \<longrightarrow>
      hideWindow k w = applyCont k (w\<lparr>trace := trace w @ [LogDebug ''Hide window'' []]\<rparr>)
      \<and> timers (hideWindow k w) = timers w)"
  by (simp add: hideWindow_def fireTimer_def setTimeout_def emit_def applyCont_timers Let_def)

theorem hideWindow_continuation_once_witness:
  "appFocused (idle\<lparr>appFocused := True\<rparr>)
   \<and> hideWindow (RunEntry entryA) (idle\<lparr>appFocused := True\<rparr>) =
       idle\<lparr>appFocused := True, timers := [(RunEntry entryA, AutoTypeAfterHide)],
          trace := [LogDebug ''Hide window'' [], HideApp]\<rparr>
   \<and> \<not> running (hideWindow (RunEntry entryA) (idle\<lparr>appFocused := True\<rparr>))
   \<and> running (fireTimer 0 (hideWindow (RunEntry entryA) (idle\<lparr>appFocused := True\<rparr>)))
   \<and> timers (fireTimer 0 (hideWindow (RunEntry entryA) (idle\<lparr>appFocused := True\<rparr>))) = []
   \<and> \<not> appFocused idle
   \<and> running (hideWindow (RunEntry entryA) idle)
   \<and> timers (hideWindow (RunEntry entryA) idle) = []
   \<and> trace (hideWindow ShowMain idle) = [LogDebug ''Hide window'' [], ShowMainWindow]"
  using hideWindow_continuation_once [of "idle\<lparr>appFocused := True\<rparr>" "RunEntry entryA"]
    hideWindow_continuation_once [of idle "RunEntry entryA"]
    hideWindow_continuation_once [of idle ShowMain]
  by (simp add: idle_def entryA_def hideWindow_def fireTimer_def setTimeout_def applyCont_def
      runAndHandleResult_def run_defs emit_def await_def js_def Let_def)

section \<open>Validation\<close>




section \<open>A trigger with an entry while a selection view is open\<close>

text \<open>What \<open>selectEntryView\<close> holds makes no difference to a trigger that carries an entry.\<close>

lemma callCallback_view:
  "callCallback cbo err (w\<lparr>selectEntryView := s\<rparr>) = (callCallback cbo err w)\<lparr>selectEntryView := s\<rparr>"
  by (simp add: callCallback_def emit_def Let_def split: option.splits callback.splits)

lemma view_outward:
  "(w\<lparr>selectEntryView := s\<rparr>)\<lparr>running := b\<rparr> = (w\<lparr>running := b\<rparr>)\<lparr>selectEntryView := s\<rparr>"
  "emit x (w\<lparr>selectEntryView := s\<rparr>) = (emit x w)\<lparr>selectEntryView := s\<rparr>"
  "await a (w\<lparr>selectEntryView := s\<rparr>) = (await a w)\<lparr>selectEntryView := s\<rparr>"
  by (simp_all add: emit_def await_def)

lemma called_view:
  "called cbo err (w\<lparr>selectEntryView := s\<rparr>)
     = (fst (called cbo err w), (snd (called cbo err w))\<lparr>selectEntryView := s\<rparr>)"
  by (simp add: called_def callbackThrown_def callCallback_view
      split: option.splits callback.splits)

lemma runCallbackOutcome_view:
  "runCallbackOutcome cbo err (w\<lparr>selectEntryView := s\<rparr>)
     = (fst (runCallbackOutcome cbo err w),
        (snd (runCallbackOutcome cbo err w))\<lparr>selectEntryView := s\<rparr>)"
  by (simp add: runCallbackOutcome_def view_outward called_view Let_def split: option.splits)

lemma runnerRun_view:
  "runnerRun r cbo (w\<lparr>selectEntryView := s\<rparr>)
     = (fst (runnerRun r cbo w), (snd (runnerRun r cbo w))\<lparr>selectEntryView := s\<rparr>)"
  by (simp add: runnerRun_def view_outward runCallbackOutcome_view split: run_sync.splits)

lemma resolveCallbackOutcome_view:
  "resolveCallbackOutcome r ent cbo err (w\<lparr>selectEntryView := s\<rparr>)
     = (fst (resolveCallbackOutcome r ent cbo err w),
        (snd (resolveCallbackOutcome r ent cbo err w))\<lparr>selectEntryView := s\<rparr>)"
  by (simp add: resolveCallbackOutcome_def view_outward called_view runnerRun_view Let_def
      split: option.splits sum.splits)

lemma runOutcome_view:
  "runOutcome ent cbo (w\<lparr>selectEntryView := s\<rparr>)
     = (fst (runOutcome ent cbo w), (snd (runOutcome ent cbo w))\<lparr>selectEntryView := s\<rparr>)"
  by (simp add: runOutcome_def view_outward called_view resolveCallbackOutcome_view Let_def
      split: option.splits sum.splits resolve_sync.splits)

lemma run_view:
  "run ent cb (w\<lparr>selectEntryView := s\<rparr>) = (run ent cb w)\<lparr>selectEntryView := s\<rparr>"
  by (simp add: run_def runOutcome_view)

lemma hideWindow_view:
  "hideWindow (RunEntry en) (w\<lparr>selectEntryView := s\<rparr>)
     = (hideWindow (RunEntry en) w)\<lparr>selectEntryView := s\<rparr>"
proof -
  have "hideWindow (RunEntry en) (w\<lparr>selectEntryView := s\<rparr>)
      = (if appFocused w
         then (w\<lparr>selectEntryView := s\<rparr>)
                \<lparr>timers := timers w @ [(RunEntry en, AutoTypeAfterHide)],
                 trace := trace w @ [LogDebug ''Hide window'' [], HideApp]\<rparr>
         else run en (Some HandleResult)
                ((w\<lparr>trace := trace w @ [LogDebug ''Hide window'' []]\<rparr>)\<lparr>selectEntryView := s\<rparr>))"
    by (cases w)
      (simp add: hideWindow_def applyCont_def runAndHandleResult_def setTimeout_def emit_def
        Let_def)
  also have "\<dots> = (hideWindow (RunEntry en) w)\<lparr>selectEntryView := s\<rparr>"
    by (simp only: run_view)
      (cases w, simp add: hideWindow_def applyCont_def runAndHandleResult_def setTimeout_def
        emit_def Let_def)
  finally show ?thesis .
qed

lemma handleEvent_view:
  assumes "trig_entry t = Some en"
  shows "handleEvent (Some t) (w\<lparr>selectEntryView := s\<rparr>)
           = (handleEvent (Some t) w)\<lparr>selectEntryView := s\<rparr>"
proof -
  let ?l = "LogDebug ''Auto type event'' [LEntry (Some en)]"
  have "handleEvent (Some t) (w\<lparr>selectEntryView := s\<rparr>)
      = (if running w
         then (w\<lparr>trace := trace w @ [?l, LogDebug ''Already running, skipping event'' []]\<rparr>)
                \<lparr>selectEntryView := s\<rparr>
         else hideWindow (RunEntry en) ((w\<lparr>trace := trace w @ [?l]\<rparr>)\<lparr>selectEntryView := s\<rparr>))"
    using assms by (cases w) (simp add: handleEvent_def emit_def Let_def)
  also have "\<dots> = (handleEvent (Some t) w)\<lparr>selectEntryView := s\<rparr>"
    using assms by (simp only: hideWindow_view) (simp add: handleEvent_def emit_def Let_def)
  finally show ?thesis .
qed

text \<open>
  C10.  A trigger that carries an entry and arrives while \<open>running\<close> is false is handled
  the same whatever \<open>selectEntryView\<close> holds: \<open>handleEvent\<close> goes to \<open>hideWindow\<close> with the
  run of that entry.  The view and \<open>selectEntryView\<close> are left as they are, and with
  another value in \<open>selectEntryView\<close> the handler does the same.  With the application
  focused the run is put behind the timer; otherwise \<open>run\<close> starts at once.
\<close>

theorem handleEvent_entry_ignores_view:
  "\<not> running w \<and> trig_entry t = Some en \<longrightarrow>
     handleEvent (Some t) w =
       hideWindow (RunEntry en)
         (w\<lparr>trace := trace w @ [LogDebug ''Auto type event'' [LEntry (Some en)]]\<rparr>)
     \<and> selectEntryView (handleEvent (Some t) w) = selectEntryView w
     \<and> views (handleEvent (Some t) w) = views w
     \<and> handleEvent (Some t) (w\<lparr>selectEntryView := s\<rparr>)
         = (handleEvent (Some t) w)\<lparr>selectEntryView := s\<rparr>
     \<and> (appFocused w \<longrightarrow>
          timers (handleEvent (Some t) w) = timers w @ [(RunEntry en, AutoTypeAfterHide)]
          \<and> trace (handleEvent (Some t) w) =
              trace w @ [LogDebug ''Auto type event'' [LEntry (Some en)],
                         LogDebug ''Hide window'' [], HideApp])
     \<and> (\<not> appFocused w \<longrightarrow>
          handleEvent (Some t) w =
            run en (Some HandleResult)
              (w\<lparr>trace := trace w @ [LogDebug ''Auto type event'' [LEntry (Some en)],
                                      LogDebug ''Hide window'' []]\<rparr>))"
proof
  assume a: "\<not> running w \<and> trig_entry t = Some en"
  have same: "handleEvent (Some t) (w\<lparr>selectEntryView := s\<rparr>)
         = (handleEvent (Some t) w)\<lparr>selectEntryView := s\<rparr>"
    using a by (simp add: handleEvent_view)
  have rest: "handleEvent (Some t) w =
       hideWindow (RunEntry en)
         (w\<lparr>trace := trace w @ [LogDebug ''Auto type event'' [LEntry (Some en)]]\<rparr>)
     \<and> selectEntryView (handleEvent (Some t) w) = selectEntryView w
     \<and> views (handleEvent (Some t) w) = views w
     \<and> (appFocused w \<longrightarrow>
          timers (handleEvent (Some t) w) = timers w @ [(RunEntry en, AutoTypeAfterHide)]
          \<and> trace (handleEvent (Some t) w) =
              trace w @ [LogDebug ''Auto type event'' [LEntry (Some en)],
                         LogDebug ''Hide window'' [], HideApp])
     \<and> (\<not> appFocused w \<longrightarrow>
          handleEvent (Some t) w =
            run en (Some HandleResult)
              (w\<lparr>trace := trace w @ [LogDebug ''Auto type event'' [LEntry (Some en)],
                                      LogDebug ''Hide window'' []]\<rparr>))"
    using a
    by (simp add: handleEvent_def hideWindow_frame emit_def Let_def)
      (simp add: hideWindow_def setTimeout_def emit_def applyCont_def runAndHandleResult_def
        Let_def)
  from same rest show
    "handleEvent (Some t) w =
       hideWindow (RunEntry en)
         (w\<lparr>trace := trace w @ [LogDebug ''Auto type event'' [LEntry (Some en)]]\<rparr>)
     \<and> selectEntryView (handleEvent (Some t) w) = selectEntryView w
     \<and> views (handleEvent (Some t) w) = views w
     \<and> handleEvent (Some t) (w\<lparr>selectEntryView := s\<rparr>)
         = (handleEvent (Some t) w)\<lparr>selectEntryView := s\<rparr>
     \<and> (appFocused w \<longrightarrow>
          timers (handleEvent (Some t) w) = timers w @ [(RunEntry en, AutoTypeAfterHide)]
          \<and> trace (handleEvent (Some t) w) =
              trace w @ [LogDebug ''Auto type event'' [LEntry (Some en)],
                         LogDebug ''Hide window'' [], HideApp])
     \<and> (\<not> appFocused w \<longrightarrow>
          handleEvent (Some t) w =
            run en (Some HandleResult)
              (w\<lparr>trace := trace w @ [LogDebug ''Auto type event'' [LEntry (Some en)],
                                      LogDebug ''Hide window'' []]\<rparr>))"
    by blast
qed

text \<open>A view is open and nothing runs; the trigger for \<open>entryA\<close> starts its run.\<close>

theorem handleEvent_entry_ignores_view_witness:
  "\<not> running (idle\<lparr>selectEntryView := SevView 0, views := [openView]\<rparr>)
   \<and> trig_entry \<lparr>trig_entry = Some entryA\<rparr> = Some entryA
   \<and> truthy (selectEntryView (idle\<lparr>selectEntryView := SevView 0, views := [openView]\<rparr>))
   \<and> running (handleEvent (Some \<lparr>trig_entry = Some entryA\<rparr>)
        (idle\<lparr>selectEntryView := SevView 0, views := [openView]\<rparr>))
   \<and> inFlight (handleEvent (Some \<lparr>trig_entry = Some entryA\<rparr>)
        (idle\<lparr>selectEntryView := SevView 0, views := [openView]\<rparr>)) = 1
   \<and> selectEntryView (handleEvent (Some \<lparr>trig_entry = Some entryA\<rparr>)
        (idle\<lparr>selectEntryView := SevView 0, views := [openView]\<rparr>)) = SevView 0
   \<and> views (handleEvent (Some \<lparr>trig_entry = Some entryA\<rparr>)
        (idle\<lparr>selectEntryView := SevView 0, views := [openView]\<rparr>)) = [openView]"
  using handleEvent_entry_ignores_view
    [where w = "idle\<lparr>selectEntryView := SevView 0, views := [openView]\<rparr>"
       and t = "\<lparr>trig_entry = Some entryA\<rparr>" and en = entryA and s = SevNull]
  by (simp add: idle_def entryA_def openView_def truthy_def handleEvent_def hideWindow_def
      applyCont_def runAndHandleResult_def run_defs emit_def await_def
      inFlight_def isPipeline_def js_def Let_def)

section \<open>From the candidates to a run or a selection view\<close>

text \<open>Any number of candidates other than one opens a selection view.\<close>

lemma processEventWithFilter_view:
  "length (getEntries w (evt_filter ev)) \<noteq> 1 \<Longrightarrow>
     processEventWithFilter ev w =
       w\<lparr>selectEntryView := SevView (length (views w)),
         views := views w @
           [\<lparr>view_filter = evt_filter ev, resultListener = True, removed = False\<rparr>],
         timers := timers w @ [(ShowMain, RedrawInactiveWindow)],
         trace := trace w @ [RenderSelectView (length (views w))]\<rparr>"
  by (simp add: processEventWithFilter_def focusMainWindow_def setTimeout_def emit_def
      updateView_def Let_def)

text \<open>
  C3 as stated fails: with no candidate at all, \<open>processEventWithFilter\<close> opens a
  selection view, for it asks only whether there is exactly one candidate.  Here a
  trigger without entry arrives in the idle world, whose filter finds nothing; the
  helper reports the window title, and a view is rendered and kept in
  \<open>selectEntryView\<close>.
\<close>

theorem no_candidate_opens_view:
  "getEntries idle \<lparr>title = Some (js ''t''), url = None\<rparr> = []
   \<and> selectEntryView idle = SevFalse
   \<and> views idle = []
   \<and> selectEntryView
        (complete 0 (WindowTitle None (Some (js ''t'')) None) (handleEvent None idle))
       = SevView 0
   \<and> views (complete 0 (WindowTitle None (Some (js ''t'')) None) (handleEvent None idle))
       = [\<lparr>view_filter = \<lparr>title = Some (js ''t''), url = None\<rparr>, resultListener = True,
            removed = False\<rparr>]
   \<and> trace (complete 0 (WindowTitle None (Some (js ''t'')) None) (handleEvent None idle))
       = [LogDebug ''Auto type event'' [LEntry None],
          LogDebug ''Get window title'' [],
          LogDebug ''Window title'' [LOptStr (Some (js ''t'')), LOptStr None],
          RenderSelectView 0]"
  by (simp add: idle_def handleEvent_def truthy_def selectEntryAndRun_def complete_def
      answerTo_def windowTitleCallback_def processEventWithFilter_def focusMainWindow_def
      setTimeout_def updateView_def emit_def await_def js_def Let_def)

text \<open>
  C3, amended: with no candidate no run starts (\<open>running\<close>, the awaited callbacks and the
  pipelines in flight are as before, the application is not hidden), but a selection
  view is opened, as it is for several candidates, and the main window is asked to show.
\<close>

theorem no_candidate_no_run_but_view:
  "getEntries w (evt_filter ev) = [] \<longrightarrow>
     processEventWithFilter ev w =
       w\<lparr>selectEntryView := SevView (length (views w)),
         views := views w @
           [\<lparr>view_filter = evt_filter ev, resultListener = True, removed = False\<rparr>],
         timers := timers w @ [(ShowMain, RedrawInactiveWindow)],
         trace := trace w @ [RenderSelectView (length (views w))]\<rparr>
     \<and> running (processEventWithFilter ev w) = running w
     \<and> awaiting (processEventWithFilter ev w) = awaiting w
     \<and> inFlight (processEventWithFilter ev w) = inFlight w
     \<and> pendingEvent (processEventWithFilter ev w) = pendingEvent w"
  by (simp add: processEventWithFilter_view inFlight_def)

theorem no_candidate_no_run_but_view_witness:
  "getEntries idle (evt_filter \<lparr>evt_filter = \<lparr>title = None, url = None\<rparr>\<rparr>) = []
   \<and> processEventWithFilter \<lparr>evt_filter = \<lparr>title = None, url = None\<rparr>\<rparr> idle =
       idle\<lparr>selectEntryView := SevView 0,
         views := [\<lparr>view_filter = \<lparr>title = None, url = None\<rparr>, resultListener = True,
                    removed = False\<rparr>],
         timers := [(ShowMain, RedrawInactiveWindow)],
         trace := [RenderSelectView 0]\<rparr>
   \<and> \<not> running (processEventWithFilter \<lparr>evt_filter = \<lparr>title = None, url = None\<rparr>\<rparr> idle)
   \<and> inFlight (processEventWithFilter \<lparr>evt_filter = \<lparr>title = None, url = None\<rparr>\<rparr> idle) = 0"
  using no_candidate_no_run_but_view [of idle "\<lparr>evt_filter = \<lparr>title = None, url = None\<rparr>\<rparr>"]
  by (simp add: idle_def inFlight_def)

lemma viewResult_tears_down:
  "selectEntryView w = SevView v \<Longrightarrow> v < length (views w) \<Longrightarrow> resultListener (views w ! v) \<Longrightarrow>
     viewResult v res w = Inr (hideWindow (RunResult res) (tornDown v res w))"
  by (simp add: viewResult_def resultListenerBody_def updateView_def emit_def tornDown_def
      Let_def)

text \<open>
  The dispatch.  One candidate: \<open>hideWindow\<close> with the run of that entry, and no view is made.
  More than one: a view is rendered, kept in \<open>selectEntryView\<close> and listened to.  When
  the view fires 'result', the listener is taken off, the view removed and
  \<open>selectEntryView\<close> set to null, whatever the result; then \<open>hideWindow\<close> is given a
  function that runs the chosen entry, and does nothing when there is none: \<open>running\<close>
  and the awaited callbacks stay as they were.  A second 'result' of that view finds no
  listener.  The listener works on the view that \<open>selectEntryView\<close> holds when the event
  fires, which is the view that fires as long as no other view has been opened since.
\<close>

theorem candidates_dispatch:
  "(getEntries w (evt_filter ev) = [en] \<longrightarrow>
      processEventWithFilter ev w = hideWindow (RunEntry en) w
      \<and> selectEntryView (processEventWithFilter ev w) = selectEntryView w
      \<and> views (processEventWithFilter ev w) = views w
      \<and> applyCont (RunEntry en) w = run en (Some HandleResult) w)
   \<and> (1 < length (getEntries w (evt_filter ev)) \<longrightarrow>
      processEventWithFilter ev w =
        w\<lparr>selectEntryView := SevView (length (views w)),
          views := views w @
            [\<lparr>view_filter = evt_filter ev, resultListener = True, removed = False\<rparr>],
          timers := timers w @ [(ShowMain, RedrawInactiveWindow)],
          trace := trace w @ [RenderSelectView (length (views w))]\<rparr>
      \<and> viewResult (length (views w)) res (processEventWithFilter ev w) =
          Inr (hideWindow (RunResult res)
                (tornDown (length (views w)) res (processEventWithFilter ev w))))
   \<and> (selectEntryView w = SevView v \<and> v < length (views w) \<and> resultListener (views w ! v) \<longrightarrow>
      viewResult v res w = Inr (hideWindow (RunResult res) (tornDown v res w))
      \<and> selectEntryView (hideWindow (RunResult res) (tornDown v res w)) = SevNull
      \<and> \<not> resultListener (views (hideWindow (RunResult res) (tornDown v res w)) ! v)
      \<and> removed (views (hideWindow (RunResult res) (tornDown v res w)) ! v)
      \<and> viewResult v res' (hideWindow (RunResult res) (tornDown v res w))
          = Inr (hideWindow (RunResult res) (tornDown v res w)))
   \<and> applyCont (RunResult (Some en)) w = run en (Some HandleResult) w
   \<and> applyCont (RunResult None) w = w
   \<and> (\<not> appFocused w \<longrightarrow>
        running (hideWindow (RunResult None) (tornDown v res w)) = running w
        \<and> awaiting (hideWindow (RunResult None) (tornDown v res w)) = awaiting w
        \<and> timers (hideWindow (RunResult None) (tornDown v res w)) = timers w)
   \<and> (appFocused w \<longrightarrow>
        running (hideWindow (RunResult None) (tornDown v res w)) = running w
        \<and> awaiting (hideWindow (RunResult None) (tornDown v res w)) = awaiting w
        \<and> timers (hideWindow (RunResult None) (tornDown v res w))
            = timers w @ [(RunResult None, AutoTypeAfterHide)])"
proof -
  have one: "getEntries w (evt_filter ev) = [en] \<longrightarrow>
      processEventWithFilter ev w = hideWindow (RunEntry en) w
      \<and> selectEntryView (processEventWithFilter ev w) = selectEntryView w
      \<and> views (processEventWithFilter ev w) = views w
      \<and> applyCont (RunEntry en) w = run en (Some HandleResult) w"
    by (simp add: processEventWithFilter_def hideWindow_frame applyCont_def
        runAndHandleResult_def)
  have many: "1 < length (getEntries w (evt_filter ev)) \<longrightarrow>
      processEventWithFilter ev w =
        w\<lparr>selectEntryView := SevView (length (views w)),
          views := views w @
            [\<lparr>view_filter = evt_filter ev, resultListener = True, removed = False\<rparr>],
          timers := timers w @ [(ShowMain, RedrawInactiveWindow)],
          trace := trace w @ [RenderSelectView (length (views w))]\<rparr>
      \<and> viewResult (length (views w)) res (processEventWithFilter ev w) =
          Inr (hideWindow (RunResult res)
                (tornDown (length (views w)) res (processEventWithFilter ev w)))"
  proof
    assume "1 < length (getEntries w (evt_filter ev))"
    then have ne: "length (getEntries w (evt_filter ev)) \<noteq> 1"
      by simp
    have "viewResult (length (views w)) res (processEventWithFilter ev w) =
          Inr (hideWindow (RunResult res)
                (tornDown (length (views w)) res (processEventWithFilter ev w)))"
      by (rule viewResult_tears_down) (simp_all add: processEventWithFilter_view [OF ne])
    then show "processEventWithFilter ev w =
        w\<lparr>selectEntryView := SevView (length (views w)),
          views := views w @
            [\<lparr>view_filter = evt_filter ev, resultListener = True, removed = False\<rparr>],
          timers := timers w @ [(ShowMain, RedrawInactiveWindow)],
          trace := trace w @ [RenderSelectView (length (views w))]\<rparr>
      \<and> viewResult (length (views w)) res (processEventWithFilter ev w) =
          Inr (hideWindow (RunResult res)
                (tornDown (length (views w)) res (processEventWithFilter ev w)))"
      by (simp add: processEventWithFilter_view [OF ne])
  qed
  have fired: "selectEntryView w = SevView v \<and> v < length (views w) \<and> resultListener (views w ! v) \<longrightarrow>
      viewResult v res w = Inr (hideWindow (RunResult res) (tornDown v res w))
      \<and> selectEntryView (hideWindow (RunResult res) (tornDown v res w)) = SevNull
      \<and> \<not> resultListener (views (hideWindow (RunResult res) (tornDown v res w)) ! v)
      \<and> removed (views (hideWindow (RunResult res) (tornDown v res w)) ! v)
      \<and> viewResult v res' (hideWindow (RunResult res) (tornDown v res w))
          = Inr (hideWindow (RunResult res) (tornDown v res w))"
    by (simp add: viewResult_tears_down hideWindow_frame)
      (simp add: tornDown_def viewResult_def hideWindow_frame)
  have conts: "applyCont (RunResult (Some en)) w = run en (Some HandleResult) w"
    "applyCont (RunResult None) w = w"
    by (simp_all add: applyCont_def runAndHandleResult_def)
  have cancel: "(\<not> appFocused w \<longrightarrow>
        running (hideWindow (RunResult None) (tornDown v res w)) = running w
        \<and> awaiting (hideWindow (RunResult None) (tornDown v res w)) = awaiting w
        \<and> timers (hideWindow (RunResult None) (tornDown v res w)) = timers w)
   \<and> (appFocused w \<longrightarrow>
        running (hideWindow (RunResult None) (tornDown v res w)) = running w
        \<and> awaiting (hideWindow (RunResult None) (tornDown v res w)) = awaiting w
        \<and> timers (hideWindow (RunResult None) (tornDown v res w))
            = timers w @ [(RunResult None, AutoTypeAfterHide)])"
    by (simp add: hideWindow_def applyCont_def tornDown_def setTimeout_def emit_def Let_def)
  from one many fired conts cancel show ?thesis by blast
qed

text \<open>
  With one candidate the run of \<open>entryA\<close> starts and there is no view.  With two a view
  opens; choosing \<open>entryB\<close> tears it down and starts the run of \<open>entryB\<close>, cancelling tears
  it down and starts nothing.
\<close>

theorem candidates_dispatch_witness:
  "getEntries oneCandidate (evt_filter noContext) = [entryA]
   \<and> running (processEventWithFilter noContext oneCandidate)
   \<and> inFlight (processEventWithFilter noContext oneCandidate) = 1
   \<and> selectEntryView (processEventWithFilter noContext oneCandidate) = SevFalse
   \<and> views (processEventWithFilter noContext oneCandidate) = []
   \<and> 1 < length (getEntries twoCandidates (evt_filter noContext))
   \<and> selectEntryView (processEventWithFilter noContext twoCandidates) = SevView 0
   \<and> views (processEventWithFilter noContext twoCandidates) = [openView]
   \<and> \<not> running (processEventWithFilter noContext twoCandidates)
   \<and> viewResult 0 (Some entryB) (processEventWithFilter noContext twoCandidates)
       = Inr (hideWindow (RunResult (Some entryB))
               (tornDown 0 (Some entryB) (processEventWithFilter noContext twoCandidates)))
   \<and> running (hideWindow (RunResult (Some entryB))
               (tornDown 0 (Some entryB) (processEventWithFilter noContext twoCandidates)))
   \<and> awaiting (hideWindow (RunResult (Some entryB))
               (tornDown 0 (Some entryB) (processEventWithFilter noContext twoCandidates)))
       = [AwaitResolve \<lparr>ops = [Text None (js ''cd'')]\<rparr> entryB (Some HandleResult)]
   \<and> selectEntryView (hideWindow (RunResult (Some entryB))
               (tornDown 0 (Some entryB) (processEventWithFilter noContext twoCandidates)))
       = SevNull
   \<and> views (hideWindow (RunResult (Some entryB))
               (tornDown 0 (Some entryB) (processEventWithFilter noContext twoCandidates)))
       = [openView\<lparr>resultListener := False, removed := True\<rparr>]
   \<and> viewResult 0 None (processEventWithFilter noContext twoCandidates)
       = Inr (hideWindow (RunResult None)
               (tornDown 0 None (processEventWithFilter noContext twoCandidates)))
   \<and> \<not> running (hideWindow (RunResult None)
               (tornDown 0 None (processEventWithFilter noContext twoCandidates)))
   \<and> awaiting (hideWindow (RunResult None)
               (tornDown 0 None (processEventWithFilter noContext twoCandidates))) = []
   \<and> selectEntryView (hideWindow (RunResult None)
               (tornDown 0 None (processEventWithFilter noContext twoCandidates))) = SevNull
   \<and> views (hideWindow (RunResult None)
               (tornDown 0 None (processEventWithFilter noContext twoCandidates)))
       = [openView\<lparr>resultListener := False, removed := True\<rparr>]"
  using
    candidates_dispatch
      [where w = oneCandidate and ev = noContext and en = entryA and v = 0 and res = None
         and res' = None]
    candidates_dispatch
      [where w = twoCandidates and ev = noContext and en = entryA and v = 0 and res = None
         and res' = None]
    candidates_dispatch
      [where w = "processEventWithFilter noContext twoCandidates" and ev = noContext
         and en = entryB and v = 0 and res = "Some entryB" and res' = None]
    candidates_dispatch
      [where w = "processEventWithFilter noContext twoCandidates" and ev = noContext
         and en = entryB and v = 0 and res = None and res' = None]
  by (simp add: oneCandidate_def twoCandidates_def noContext_def openView_def idle_def
      entryA_def entryB_def processEventWithFilter_def focusMainWindow_def viewResult_def
      resultListenerBody_def tornDown_def updateView_def hideWindow_def applyCont_def
      runAndHandleResult_def run_defs setTimeout_def emit_def await_def inFlight_def
      isPipeline_def js_def Let_def)

text \<open>
  C4.  One candidate runs without a view, several open a view, and the 'result' of that
  view is to tear that view down.  The listener, though, tears down whatever view
  \<open>selectEntryView\<close> holds, and \<open>handleEvent\<close> drops a trigger without entry only once a view
  is open, not while the helper is still asked for the window title.  Here two such
  triggers arrive before the helper answers, both are accepted, and the two answers open
  two views, of which \<open>selectEntryView\<close> holds the second.  The first view then fires
  'result' with \<open>entryB\<close>: the listener of the second view is taken off and the second
  view removed, while the view that fired keeps its listener and stays.
\<close>

theorem result_tears_down_other_view:
  "selectEntryView (handleEvent None twoCandidates) = SevFalse
   \<and> \<not> running (handleEvent None twoCandidates)
   \<and> awaiting (handleEvent None (handleEvent None twoCandidates))
       = [AwaitWindowTitle, AwaitWindowTitle]
   \<and> views twoViews = [openView, openView]
   \<and> selectEntryView twoViews = SevView 1
   \<and> viewResult 0 (Some entryB) twoViews
       = Inr (hideWindow (RunResult (Some entryB)) (tornDown 1 (Some entryB) twoViews))
   \<and> views (hideWindow (RunResult (Some entryB)) (tornDown 1 (Some entryB) twoViews))
       = [openView, openView\<lparr>resultListener := False, removed := True\<rparr>]
   \<and> resultListener
        (views (hideWindow (RunResult (Some entryB)) (tornDown 1 (Some entryB) twoViews)) ! 0)
   \<and> \<not> removed
        (views (hideWindow (RunResult (Some entryB)) (tornDown 1 (Some entryB) twoViews)) ! 0)
   \<and> selectEntryView
        (hideWindow (RunResult (Some entryB)) (tornDown 1 (Some entryB) twoViews)) = SevNull"
  by (simp add: twoViews_def twoCandidates_def openView_def idle_def entryA_def entryB_def
      handleEvent_def truthy_def selectEntryAndRun_def complete_def answerTo_def
      windowTitleCallback_def processEventWithFilter_def focusMainWindow_def viewResult_def
      resultListenerBody_def tornDown_def updateView_def hideWindow_def applyCont_def
      runAndHandleResult_def run_defs setTimeout_def emit_def await_def js_def Let_def)

section \<open>A trigger that waits for a file to be opened\<close>

lemma windowQueries_steps:
  "windowQueries (emit x w) = windowQueries w"
  "windowQueries (w\<lparr>running := b\<rparr>) = windowQueries w"
  "windowQueries (callCallback cb err w) = windowQueries w"
  "windowQueries (await (AwaitRun r cb) w) = windowQueries w"
  "windowQueries (await (AwaitResolve r ent cb) w) = windowQueries w"
  by (simp_all add: windowQueries_def isWindowQuery_def callCallback_frame emit_def await_def)

lemma windowQueries_runCallbackOutcome:
  "windowQueries (snd (runCallbackOutcome cb err w)) = windowQueries w"
  by (simp add: runCallbackOutcome_def called_def windowQueries_steps Let_def
      split: option.splits)

lemma windowQueries_runnerRun: "windowQueries (snd (runnerRun r cb w)) = windowQueries w"
  by (simp add: runnerRun_def windowQueries_runCallbackOutcome windowQueries_steps
      split: run_sync.splits)

lemma windowQueries_resolveCallbackOutcome:
  "windowQueries (snd (resolveCallbackOutcome r ent cb err w)) = windowQueries w"
  by (simp add: resolveCallbackOutcome_def called_def windowQueries_runnerRun
      windowQueries_steps Let_def split: option.splits sum.splits)

lemma windowQueries_run: "windowQueries (run ent cb w) = windowQueries w"
  by (simp add: run_def runOutcome_def called_def windowQueries_resolveCallbackOutcome
      windowQueries_steps Let_def split: option.splits sum.splits resolve_sync.splits)

lemma windowQueries_applyCont: "windowQueries (applyCont k w) = windowQueries w"
proof (cases k)
  case (RunEntry e)
  then show ?thesis
    by (simp add: applyCont_def runAndHandleResult_def windowQueries_run)
next
  case (RunResult r)
  then show ?thesis
    by (simp add: applyCont_def runAndHandleResult_def windowQueries_run split: option.splits)
next
  case ShowMain
  then show ?thesis
    by (simp add: applyCont_def emit_def windowQueries_def)
qed

lemma windowQueries_hideWindow: "windowQueries (hideWindow k w) = windowQueries w"
  by (simp add: hideWindow_def windowQueries_applyCont Let_def)
    (simp add: windowQueries_def setTimeout_def emit_def)

lemma windowQueries_processEventWithFilter:
  "windowQueries (processEventWithFilter ev w) = windowQueries w"
proof (cases "length (getEntries w (evt_filter ev)) = 1")
  case True
  then show ?thesis
    by (simp add: processEventWithFilter_def windowQueries_hideWindow)
next
  case False
  then show ?thesis
    by (simp add: processEventWithFilter_view windowQueries_def)
qed

text \<open>One pass of Backbone over a one-shot listener of 'update'.\<close>

lemma update_pass_idle:
  "pendingEvent x = None \<Longrightarrow> updateSubs x = 0 \<Longrightarrow>
     processPendingEvent (x\<lparr>updateSubs := updateSubs x - 1\<rparr>) = x"
  by (simp add: processPendingEvent_def)

lemma update_passes_idle:
  assumes "pendingEvent x = None" and "updateSubs x = 0"
  shows "((\<lambda>y. processPendingEvent (y\<lparr>updateSubs := updateSubs y - 1\<rparr>)) ^^ n) x = x"
proof (induction n)
  case 0
  show ?case by simp
next
  case (Suc n)
  let ?f = "\<lambda>y. processPendingEvent (y\<lparr>updateSubs := updateSubs y - 1\<rparr>)"
  have "(?f ^^ Suc n) x = ?f ((?f ^^ n) x)"
    by (simp only: funpow.simps o_apply)
  also have "\<dots> = ?f x"
    by (simp only: Suc.IH)
  also have "\<dots> = x"
    using assms by (rule update_pass_idle)
  finally show ?case .
qed

lemma update_pass_pending:
  "pendingEvent w = Some ev \<Longrightarrow>
     processPendingEvent (w\<lparr>updateSubs := updateSubs w - 1\<rparr>) =
       processEventWithFilter ev
         (w\<lparr>trace := trace w @ [LogDebug ''processing pending auto-type event'' []],
           updateSubs := 0, pendingEvent := None\<rparr>)"
  by (simp add: processPendingEvent_def emit_def Let_def)

lemma filesUpdate_pending:
  assumes "pendingEvent w = Some ev" and "0 < updateSubs w"
  shows "filesUpdate w =
       processEventWithFilter ev
         (w\<lparr>trace := trace w @ [LogDebug ''processing pending auto-type event'' []],
           updateSubs := 0, pendingEvent := None\<rparr>)"
proof -
  let ?f = "\<lambda>y. processPendingEvent (y\<lparr>updateSubs := updateSubs y - 1\<rparr>)"
  let ?w' = "processEventWithFilter ev
         (w\<lparr>trace := trace w @ [LogDebug ''processing pending auto-type event'' []],
           updateSubs := 0, pendingEvent := None\<rparr>)"
  obtain n where n: "updateSubs w = Suc n"
    using assms(2) by (cases "updateSubs w") simp_all
  have first: "?f w = ?w'"
    using assms(1) by (rule update_pass_pending)
  have "pendingEvent ?w' = None" and "updateSubs ?w' = 0"
    by (simp_all add: processEventWithFilter_frame)
  then have rest: "(?f ^^ n) ?w' = ?w'"
    by (rule update_passes_idle)
  have "filesUpdate w = (?f ^^ n) (?f w)"
    by (simp only: filesUpdate_def n funpow_Suc_right o_apply)
  also have "\<dots> = (?f ^^ n) ?w'"
    by (simp only: first)
  also have "\<dots> = ?w'"
    by (rule rest)
  finally show ?thesis .
qed

lemma filesUpdate_unsubscribed: "updateSubs w = 0 \<Longrightarrow> filesUpdate w = w"
  by (simp add: filesUpdate_def)

text \<open>
  C5.  When the helper answers and no file is open, the title and URL of that answer are
  kept in \<open>pendingEvent\<close> and one listener of 'update' is added; no view is opened and no
  run started.  When 'update' then arrives, the kept event, not a new question to the
  helper, goes through \<open>processEventWithFilter\<close>, once, in a world where \<open>pendingEvent\<close> is
  already null and the listeners of 'update' are already off; afterwards \<open>pendingEvent\<close> is
  null and no listener is left, so a further 'update' changes nothing.
\<close>

theorem pending_event_replayed_once:
  "(\<not> hasOpenFiles w \<longrightarrow>
      pendingEvent (windowTitleCallback err t u w) = Some \<lparr>evt_filter = \<lparr>title = t, url = u\<rparr>\<rparr>
      \<and> updateSubs (windowTitleCallback err t u w) = updateSubs w + 1
      \<and> running (windowTitleCallback err t u w) = running w
      \<and> awaiting (windowTitleCallback err t u w) = awaiting w
      \<and> views (windowTitleCallback err t u w) = views w
      \<and> selectEntryView (windowTitleCallback err t u w) = selectEntryView w)
   \<and> (pendingEvent w = Some ev \<and> 0 < updateSubs w \<longrightarrow>
      filesUpdate w =
        processEventWithFilter ev
          (w\<lparr>trace := trace w @ [LogDebug ''processing pending auto-type event'' []],
            updateSubs := 0, pendingEvent := None\<rparr>)
      \<and> pendingEvent (filesUpdate w) = None
      \<and> updateSubs (filesUpdate w) = 0
      \<and> windowQueries (filesUpdate w) = windowQueries w
      \<and> filesUpdate (filesUpdate w) = filesUpdate w)"
proof -
  have deferred: "\<not> hasOpenFiles w \<longrightarrow>
      pendingEvent (windowTitleCallback err t u w) = Some \<lparr>evt_filter = \<lparr>title = t, url = u\<rparr>\<rparr>
      \<and> updateSubs (windowTitleCallback err t u w) = updateSubs w + 1
      \<and> running (windowTitleCallback err t u w) = running w
      \<and> awaiting (windowTitleCallback err t u w) = awaiting w
      \<and> views (windowTitleCallback err t u w) = views w
      \<and> selectEntryView (windowTitleCallback err t u w) = selectEntryView w"
    by (simp add: windowTitleCallback_def focusMainWindow_def setTimeout_def emit_def Let_def
        split: option.splits)
  have replayed: "pendingEvent w = Some ev \<and> 0 < updateSubs w \<longrightarrow>
      filesUpdate w =
        processEventWithFilter ev
          (w\<lparr>trace := trace w @ [LogDebug ''processing pending auto-type event'' []],
            updateSubs := 0, pendingEvent := None\<rparr>)
      \<and> pendingEvent (filesUpdate w) = None
      \<and> updateSubs (filesUpdate w) = 0
      \<and> windowQueries (filesUpdate w) = windowQueries w
      \<and> filesUpdate (filesUpdate w) = filesUpdate w"
  proof
    assume a: "pendingEvent w = Some ev \<and> 0 < updateSubs w"
    then have eq: "filesUpdate w =
        processEventWithFilter ev
          (w\<lparr>trace := trace w @ [LogDebug ''processing pending auto-type event'' []],
            updateSubs := 0, pendingEvent := None\<rparr>)"
      by (simp add: filesUpdate_pending)
    have p: "pendingEvent (filesUpdate w) = None" and s: "updateSubs (filesUpdate w) = 0"
      by (simp_all add: eq processEventWithFilter_frame)
    have q: "windowQueries (filesUpdate w) = windowQueries w"
      by (simp add: eq windowQueries_processEventWithFilter) (simp add: windowQueries_def)
    have again: "filesUpdate (filesUpdate w) = filesUpdate w"
      using s by (rule filesUpdate_unsubscribed)
    from eq p s q again show
      "filesUpdate w =
        processEventWithFilter ev
          (w\<lparr>trace := trace w @ [LogDebug ''processing pending auto-type event'' []],
            updateSubs := 0, pendingEvent := None\<rparr>)
      \<and> pendingEvent (filesUpdate w) = None
      \<and> updateSubs (filesUpdate w) = 0
      \<and> windowQueries (filesUpdate w) = windowQueries w
      \<and> filesUpdate (filesUpdate w) = filesUpdate w"
      by blast
  qed
  from deferred replayed show ?thesis by blast
qed

text \<open>
  The trigger deferred in front of the window titled "bank" is replayed with that title:
  the run of \<open>entryA\<close> starts, and the helper is not asked again.
\<close>

theorem pending_event_replayed_once_witness:
  "\<not> hasOpenFiles (idle\<lparr>hasOpenFiles := False\<rparr>)
   \<and> pendingEvent (windowTitleCallback None (Some (js ''bank'')) None (idle\<lparr>hasOpenFiles := False\<rparr>))
       = Some \<lparr>evt_filter = \<lparr>title = Some (js ''bank''), url = None\<rparr>\<rparr>
   \<and> pendingEvent deferred = Some \<lparr>evt_filter = \<lparr>title = Some (js ''bank''), url = None\<rparr>\<rparr>
   \<and> 0 < updateSubs deferred
   \<and> running (filesUpdate deferred)
   \<and> awaiting (filesUpdate deferred)
       = [AwaitResolve \<lparr>ops = [Text None (js ''ab'')]\<rparr> entryA (Some HandleResult)]
   \<and> pendingEvent (filesUpdate deferred) = None
   \<and> updateSubs (filesUpdate deferred) = 0
   \<and> windowQueries (filesUpdate deferred) = 0
   \<and> filesUpdate (filesUpdate deferred) = filesUpdate deferred"
  using
    pending_event_replayed_once
      [where w = "idle\<lparr>hasOpenFiles := False\<rparr>" and err = None and t = "Some (js ''bank'')"
         and u = None and ev = noContext]
    pending_event_replayed_once
      [where w = deferred and err = None and t = None and u = None
         and ev = "\<lparr>evt_filter = \<lparr>title = Some (js ''bank''), url = None\<rparr>\<rparr>"]
  by (simp add: deferred_def bankEntries_def idle_def entryA_def noContext_def
      filesUpdate_def processPendingEvent_def windowTitleCallback_def focusMainWindow_def processEventWithFilter_def hideWindow_def
      applyCont_def runAndHandleResult_def run_defs setTimeout_def emit_def await_def
      windowQueries_def isWindowQuery_def js_def Let_def)

section \<open>Cancelling the trigger that waits\<close>

lemma resetPendingEvent_twice: "resetPendingEvent (resetPendingEvent w) = resetPendingEvent w"
  by (simp add: resetPendingEvent_def emit_def)

lemma resetPendingEvent_repeated:
  "0 < n \<Longrightarrow> (resetPendingEvent ^^ n) w = resetPendingEvent w"
proof (induction n)
  case 0
  then show ?case by simp
next
  case (Suc n)
  show ?case
  proof (cases n)
    case 0
    then show ?thesis by simp
  next
    case (Suc m)
    then have "(resetPendingEvent ^^ n) w = resetPendingEvent w"
      using Suc.IH by simp
    then show ?thesis
      by (simp add: resetPendingEvent_twice)
  qed
qed

text \<open>
  C6.  \<open>init\<close> registers \<open>resetPendingEvent\<close> for the blur and the will-close notification of
  the main window.  When an event is pending, \<open>resetPendingEvent\<close> sets \<open>pendingEvent\<close> to
  null and takes the listeners of 'update' off; an 'update' after that changes
  nothing, so nothing is replayed.  When no event is pending it changes nothing.
\<close>

theorem cancelled_event_not_replayed:
  "(pendingEvent w \<noteq> None \<longrightarrow>
      resetPendingEvent w =
        w\<lparr>pendingEvent := None, updateSubs := 0,
          trace := trace w @ [LogDebug ''auto-type event cancelled'' []]\<rparr>
      \<and> pendingEvent (resetPendingEvent w) = None
      \<and> updateSubs (resetPendingEvent w) = 0
      \<and> filesUpdate (resetPendingEvent w) = resetPendingEvent w)
   \<and> (pendingEvent w = None \<longrightarrow> resetPendingEvent w = w)
   \<and> (enabled w \<longrightarrow> blurCloseSubs (init w) = blurCloseSubs w + 1)
   \<and> (0 < blurCloseSubs w \<longrightarrow>
        backboneTrigger MainWindowBlur w = resetPendingEvent w
        \<and> backboneTrigger MainWindowWillClose w = resetPendingEvent w)"
  by (simp add: backboneTrigger_def resetPendingEvent_repeated init_def)
    (simp add: resetPendingEvent_def emit_def filesUpdate_def)

text \<open>The trigger deferred above is cancelled by a blur; the 'update' does nothing.\<close>

theorem cancelled_event_not_replayed_witness:
  "pendingEvent (init deferred) \<noteq> None
   \<and> enabled deferred
   \<and> 0 < blurCloseSubs (init deferred)
   \<and> pendingEvent (backboneTrigger MainWindowBlur (init deferred)) = None
   \<and> updateSubs (backboneTrigger MainWindowBlur (init deferred)) = 0
   \<and> filesUpdate (backboneTrigger MainWindowBlur (init deferred))
       = backboneTrigger MainWindowBlur (init deferred)
   \<and> \<not> running (filesUpdate (backboneTrigger MainWindowBlur (init deferred)))
   \<and> awaiting (filesUpdate (backboneTrigger MainWindowBlur (init deferred))) = []
   \<and> pendingEvent (init idle) = None
   \<and> backboneTrigger MainWindowWillClose (init idle) = init idle"
  using
    cancelled_event_not_replayed [where w = "init deferred"]
    cancelled_event_not_replayed [where w = deferred]
    cancelled_event_not_replayed [where w = "init idle"]
    cancelled_event_not_replayed [where w = idle]
  by (simp add: deferred_def idle_def init_def backboneTrigger_def resetPendingEvent_def
      filesUpdate_def windowTitleCallback_def focusMainWindow_def setTimeout_def emit_def
      Let_def)

section \<open>What the log shows of the ops\<close>

lemma replaceDotStar_length: "length (replaceDotStar v) = length v"
  by (simp add: replaceDotStar_def)

lemma replaceDotStar_masks:
  "\<forall>c \<in> set v. \<not> lineTerminator c \<Longrightarrow> replaceDotStar v = replicate (length v) star"
  by (induction v) (simp_all add: replaceDotStar_def)

lemma replaceDotStar_keeps_terminators:
  "i < length v \<Longrightarrow> lineTerminator (v ! i) \<Longrightarrow> replaceDotStar v ! i = v ! i"
  by (simp add: replaceDotStar_def)

text \<open>
  A text without line terminators is shown as stars, one for each code unit, unless the
  debug flag is set; then it is shown as it is.  Commands, their values and the
  modifiers are shown as they are.
\<close>

lemma printOp_text_masked:
  "\<forall>c \<in> set v. \<not> lineTerminator c \<Longrightarrow>
     printOp False (Text m v) = modKeys m @ replicate (length v) star"
  by (simp add: replaceDotStar_masks)

lemma printOp_text_clear: "printOp True (Text m v) = modKeys m @ v"
  by simp

lemma printOp_command: "printOp clear (Command m t v) = modKeys m @ t @ js '':'' @ v"
  by simp

lemma printOp_group:
  "printOp clear (Group m v) =
     modKeys m @ js ''['' @ join (js '','') (map (printOp clear) v) @ js '']''"
  by simp

text \<open>
  C8 fails where a text holds a line terminator.  The dot of \<^verbatim>\<open>/./g\<close> does not match LF,
  CR, U+2028 and U+2029, so \<^verbatim>\<open>replace\<close> leaves them in place.  With the debug flag not
  set, the text "p", LF, "w" is printed as a star, the LF itself and a star.
\<close>

theorem printOps_shows_line_terminator:
  "printOps False [Text None [0x0070, 0x000A, 0x0077]] = [0x005B, star, 0x000A, star, 0x005D]
   \<and> star \<noteq> 0x000A
   \<and> printOps False [Text None [0x2028]] = [0x005B, 0x2028, 0x005D]"
  by (simp add: replaceDotStar_def lineTerminator_def star_def modKeys_def js_def)

end
